theory Spec2Isabelle
  imports Complex_Main "HOL-Library.Sublist"
begin

section \<open>The AttributionIQ event tracker (static/tracker.js)\<close>

text \<open>
  The script registers one \<^verbatim>\<open>DOMContentLoaded\<close> handler. The handler reads the
  configuration from \<^verbatim>\<open>window.attributionIQ\<close>, sends a page-view event and installs
  \<^verbatim>\<open>window.attributionIQ.trackConversion\<close>. Everything the handler touches outside its
  own variables (the global slot, \<^verbatim>\<open>document.referrer\<close>, \<^verbatim>\<open>localStorage\<close>, the
  console, the network) is a field of the record \<open>world\<close> below, and every function of
  the script takes the world and returns the new one.
\<close>

subsection \<open>Channel derivation: \<^verbatim>\<open>getReferralChannel\<close>\<close>

text \<open>
  \<^verbatim>\<open>ref.includes(key)\<close> is the substring test of \<^verbatim>\<open>String.prototype.includes\<close>:
  \<open>key\<close> occurs in \<open>ref\<close> as a contiguous run of code units. The referrer is a
  serialised URL and the keys are ASCII, so strings are modelled as \<open>string\<close>.
\<close>

definition str_includes :: "string \<Rightarrow> string \<Rightarrow> bool" where
  "str_includes ref key = sublist key ref"

text \<open>
  The object literal \<^verbatim>\<open>domains\<close>. \<^verbatim>\<open>Object.entries\<close> lists string keys in
  insertion order, so the object is the association list in the order it is written.
\<close>

definition domains :: "(string \<times> string) list" where
  "domains =
    [(''google'', ''google''),
     (''bing'', ''bing''),
     (''yahoo'', ''yahoo''),
     (''duckduckgo'', ''duckduckgo''),
     (''facebook'', ''facebook''),
     (''instagram'', ''instagram''),
     (''twitter'', ''twitter''),
     (''linkedin'', ''linkedin''),
     (''tiktok'', ''tiktok'')]"

text \<open>
  The loop \<^verbatim>\<open>for (const [key, value] of Object.entries(domains))\<close> with its
  \<^verbatim>\<open>return value\<close> on the first hit; \<open>None\<close> when the loop runs to its end.
\<close>

fun first_match :: "string \<Rightarrow> (string \<times> string) list \<Rightarrow> string option" where
  "first_match ref [] = None"
| "first_match ref ((key, val) # entries) =
     (if str_includes ref key then Some val else first_match ref entries)"

text \<open>
  \<^verbatim>\<open>document.referrer\<close> is \<open>Some s\<close> for a string \<open>s\<close> and \<open>None\<close> when the
  property is absent (\<^verbatim>\<open>undefined\<close>); \<^verbatim>\<open>!ref\<close> holds for \<^verbatim>\<open>undefined\<close> and for
  the empty string.
\<close>

definition getReferralChannel :: "string option \<Rightarrow> string" where
  "getReferralChannel referrer =
     (case referrer of
        None \<Rightarrow> ''direct''
      | Some ref \<Rightarrow>
          if ref = [] then ''direct''
          else (case first_match ref domains of
                  Some val \<Rightarrow> val
                | None \<Rightarrow> ''other''))"

text \<open>The nine tokens in the order the specification lists them.\<close>

definition known_tokens :: "string list" where
  "known_tokens =
    [''google'', ''bing'', ''yahoo'', ''duckduckgo'', ''facebook'',
     ''instagram'', ''twitter'', ''linkedin'', ''tiktok'']"

text \<open>ASCII lower-casing, used to say that a referrer holds a token in another letter case.\<close>

definition lower_char :: "char \<Rightarrow> char" where
  "lower_char c =
     (case map_of (zip ''ABCDEFGHIJKLMNOPQRSTUVWXYZ'' ''abcdefghijklmnopqrstuvwxyz'') c of
        Some l \<Rightarrow> l
      | None \<Rightarrow> c)"

definition lower :: "string \<Rightarrow> string" where
  "lower s = map lower_char s"

subsection \<open>JavaScript values\<close>

text \<open>
  The argument of \<^verbatim>\<open>trackConversion\<close> is whatever the page passes. The script does
  two things with it: it tests its truthiness (\<^verbatim>\<open>value || 0\<close>) and hands it to
  \<^verbatim>\<open>JSON.stringify\<close>. The values are modelled as far as these two operations tell
  them apart.

  A number is a double: the special values are constructors of their own, a finite
  value other than \<^verbatim>\<open>-0\<close> is the rational it denotes. The script does no
  arithmetic on numbers.
\<close>

datatype jsnum = NaN | PosInfinity | NegInfinity | NegZero | Finite rat

text \<open>What an exception carries.\<close>

datatype js_error = TypeError string | OtherError string

text \<open>A JSON document, as its syntax tree.\<close>

datatype json =
    JsonNull
  | JsonBool bool
  | JsonNum rat
  | JsonStr string
  | JsonArr "json list"
  | JsonObj "(string \<times> json) list"

text \<open>
  What \<^verbatim>\<open>JSON.stringify\<close> does with the value of a property: it throws, it leaves
  the property out (the value serialises to \<^verbatim>\<open>undefined\<close>), or it writes a JSON
  value.
\<close>

datatype serial = Throws js_error | Omitted | Serial json

text \<open>
  An object (a function, an array, a \<^verbatim>\<open>Date\<close>, ...) is always truthy, and
  \<^verbatim>\<open>JSON.stringify\<close> is the only other thing that inspects it, through its own
  properties, its \<^verbatim>\<open>toJSON\<close> method and its cycles. An object is therefore
  represented by the outcome of its serialisation as a property value: \<open>Omitted\<close>
  for a function, \<open>Throws\<close> for a cyclic structure, \<open>Serial j\<close> otherwise.
\<close>

datatype jsval =
    JUndefined
  | JNull
  | JBool bool
  | JNum jsnum
  | JStr string
  | JBigInt int
  | JSymbol
  | JObject serial

text \<open>\<^verbatim>\<open>ToBoolean\<close>, the test behind \<^verbatim>\<open>!x\<close> and \<^verbatim>\<open>x || y\<close>.\<close>

fun truthy :: "jsval \<Rightarrow> bool" where
  "truthy JUndefined = False"
| "truthy JNull = False"
| "truthy (JBool b) = b"
| "truthy (JNum n) = (n \<noteq> NaN \<and> n \<noteq> NegZero \<and> n \<noteq> Finite 0)"
| "truthy (JStr s) = (s \<noteq> [])"
| "truthy (JBigInt i) = (i \<noteq> 0)"
| "truthy JSymbol = True"
| "truthy (JObject out) = True"

text \<open>\<^verbatim>\<open>a || b\<close>: the left operand when it is truthy, the right one otherwise.\<close>

definition js_or :: "jsval \<Rightarrow> jsval \<Rightarrow> jsval" where
  "js_or a b = (if truthy a then a else b)"

text \<open>
  \<^verbatim>\<open>SerializeJSONProperty\<close> on the value of a property: \<^verbatim>\<open>undefined\<close> and symbols
  are left out, a number that is not finite becomes \<^verbatim>\<open>null\<close>, \<^verbatim>\<open>-0\<close> is written
  \<^verbatim>\<open>0\<close>, a BigInt throws a \<^verbatim>\<open>TypeError\<close>.
\<close>

fun serialize_property :: "jsval \<Rightarrow> serial" where
  "serialize_property JUndefined = Omitted"
| "serialize_property JNull = Serial JsonNull"
| "serialize_property (JBool b) = Serial (JsonBool b)"
| "serialize_property (JNum (Finite r)) = Serial (JsonNum r)"
| "serialize_property (JNum NegZero) = Serial (JsonNum 0)"
| "serialize_property (JNum NaN) = Serial JsonNull"
| "serialize_property (JNum PosInfinity) = Serial JsonNull"
| "serialize_property (JNum NegInfinity) = Serial JsonNull"
| "serialize_property (JStr s) = Serial (JsonStr s)"
| "serialize_property (JBigInt i) = Throws (TypeError ''Do not know how to serialize a BigInt'')"
| "serialize_property JSymbol = Omitted"
| "serialize_property (JObject out) = out"

text \<open>
  The properties of an object literal, in the order they are written. Serialisation
  visits them in that order and stops at the first one that throws.
\<close>

type_synonym js_object = "(string \<times> jsval) list"

fun serialize_entries :: "js_object \<Rightarrow> js_error + (string \<times> json) list" where
  "serialize_entries [] = Inr []"
| "serialize_entries ((key, val) # rest) =
     (case serialize_property val of
        Throws e \<Rightarrow> Inl e
      | Omitted \<Rightarrow> serialize_entries rest
      | Serial j \<Rightarrow>
          (case serialize_entries rest of
             Inl e \<Rightarrow> Inl e
           | Inr js \<Rightarrow> Inr ((key, j) # js)))"

definition JSON_stringify :: "js_object \<Rightarrow> js_error + json" where
  "JSON_stringify data =
     (case serialize_entries data of
        Inl e \<Rightarrow> Inl e
      | Inr js \<Rightarrow> Inr (JsonObj js))"

text \<open>The value of a field of a JSON object; \<open>None\<close> when the document has no such field.\<close>

fun json_field :: "json \<Rightarrow> string \<Rightarrow> json option" where
  "json_field (JsonObj fields) name = map_of fields name"
| "json_field _ name = None"

subsection \<open>The world around the script\<close>

text \<open>
  The function installed as \<^verbatim>\<open>window.attributionIQ.trackConversion\<close> is a closure
  over the handler's variables; \<^verbatim>\<open>apiKey\<close> is the only one that holds data.
\<close>

datatype closure = Closure_trackConversion "string option"

text \<open>
  The object in the global slot \<^verbatim>\<open>window.attributionIQ\<close>. The configuration fields
  are strings (\<open>None\<close>: the field is missing); \<open>trackConversion\<close> is the function the
  script installs.
\<close>

record attributionIQ =
  tenant_id :: "string option"
  api_key :: "string option"
  trackConversion :: "closure option"

text \<open>The empty object literal \<^verbatim>\<open>{}\<close>.\<close>

definition empty_object :: attributionIQ where
  "empty_object = \<lparr>tenant_id = None, api_key = None, trackConversion = None\<rparr>"

text \<open>One call of \<^verbatim>\<open>fetch\<close>: the URL and the \<^verbatim>\<open>init\<close> object.\<close>

record request =
  req_url :: string
  req_method :: string
  req_headers :: "(string \<times> string) list"
  req_body :: json

text \<open>
  How the promise returned by \<^verbatim>\<open>fetch\<close> settles. It rejects on a transport failure
  only; a response with any status fulfils it.
\<close>

datatype fetch_outcome = Fulfilled | Rejected js_error

text \<open>One call of \<^verbatim>\<open>console.error\<close>: the message and the second argument, if any.\<close>

datatype console_entry = ConsoleError string "js_error option"

record world =
  window_attributionIQ :: "attributionIQ option"
  document_referrer :: "string option"
  localStorage :: "string \<rightharpoonup> string"
  console :: "console_entry list"
  network :: "request list"

text \<open>
  A call either returns, or throws to its caller; both leave a world behind.
\<close>

datatype completion = Normal world | Throw js_error world

fun world_of :: "completion \<Rightarrow> world" where
  "world_of (Normal w) = w"
| "world_of (Throw e w) = w"

fun returns :: "completion \<Rightarrow> bool" where
  "returns (Normal w) = True"
| "returns (Throw e w) = False"

definition console_error :: "string \<Rightarrow> js_error option \<Rightarrow> world \<Rightarrow> world" where
  "console_error msg arg w = w\<lparr>console := console w @ [ConsoleError msg arg]\<rparr>"

text \<open>\<^verbatim>\<open>fetch(url, init)\<close> issues the request; the promise is the caller's business.\<close>

definition fetch :: "request \<Rightarrow> world \<Rightarrow> world" where
  "fetch req w = w\<lparr>network := network w @ [req]\<rparr>"

subsection \<open>The visitor identifier: \<^verbatim>\<open>getCustomerId\<close>\<close>

text \<open>
  \<^verbatim>\<open>s.substr(start, length)\<close> for a start and a length that are not negative: at most
  \<open>len\<close> code units from position \<open>start\<close>, the empty string when \<open>start\<close> is
  past the end.
\<close>

definition substr :: "nat \<Rightarrow> nat \<Rightarrow> string \<Rightarrow> string" where
  "substr start len s = take len (drop start s)"

text \<open>
  \<^verbatim>\<open>Number.prototype.toString(36)\<close> on an integer, which is what \<^verbatim>\<open>Date.now()\<close>
  returns: the digits \<^verbatim>\<open>0-9a-z\<close>, most significant first, after a minus sign for a
  negative number.
\<close>

definition digit36 :: "nat \<Rightarrow> char" where
  "digit36 d = ''0123456789abcdefghijklmnopqrstuvwxyz'' ! d"

fun digits36 :: "nat \<Rightarrow> string" where
  "digits36 n = (if n < 36 then [digit36 n] else digits36 (n div 36) @ [digit36 (n mod 36)])"

declare digits36.simps [simp del]

definition toString36 :: "int \<Rightarrow> string" where
  "toString36 i = (if i < 0 then CHR ''-'' # digits36 (nat (- i)) else digits36 (nat i))"

text \<open>
  \<^verbatim>\<open>localStorage.getItem\<close> returns \<^verbatim>\<open>null\<close> for a key that is not stored, and
  \<^verbatim>\<open>!cid\<close> holds for \<^verbatim>\<open>null\<close> and for the empty string. The two readings of the
  environment are arguments: \<open>random36\<close> is the string
  \<^verbatim>\<open>Math.random().toString(36)\<close> (\<^verbatim>\<open>0.\<close> and the digits of the fraction), \<open>now\<close> is
  \<^verbatim>\<open>Date.now()\<close>. Both are read only when a new identifier is made.
\<close>

definition getCustomerId :: "string \<Rightarrow> int \<Rightarrow> world \<Rightarrow> string \<times> world" where
  "getCustomerId random36 now w =
     (let fresh = substr 2 10 random36 @ toString36 now;
          created = (fresh, w\<lparr>localStorage := (localStorage w)(''attributioniq_cid'' \<mapsto> fresh)\<rparr>)
      in case localStorage w ''attributioniq_cid'' of
           None \<Rightarrow> created
         | Some cid \<Rightarrow> if cid = [] then created else (cid, w))"

subsection \<open>Transmission: \<^verbatim>\<open>trackEvent\<close>\<close>

text \<open>
  \<^verbatim>\<open>'Bearer ' + apiKey\<close> converts \<^verbatim>\<open>apiKey\<close> to a string; it is a string or
  \<^verbatim>\<open>undefined\<close>.
\<close>

definition to_string :: "string option \<Rightarrow> string" where
  "to_string x = (case x of None \<Rightarrow> ''undefined'' | Some s \<Rightarrow> s)"

text \<open>
  The arguments of \<^verbatim>\<open>fetch\<close> are evaluated first, so an exception of
  \<^verbatim>\<open>JSON.stringify\<close> leaves \<^verbatim>\<open>trackEvent\<close> before any request is made. Otherwise the
  request is issued once and \<^verbatim>\<open>trackEvent\<close> returns; when the promise rejects, the
  \<^verbatim>\<open>catch\<close> callback logs the error and nothing else happens. \<open>outcome\<close> is how the
  promise of this call settles.
\<close>

definition trackEvent :: "string option \<Rightarrow> js_object \<Rightarrow> fetch_outcome \<Rightarrow> world \<Rightarrow> completion" where
  "trackEvent apiKey data outcome w =
     (case JSON_stringify data of
        Inl e \<Rightarrow> Throw e w
      | Inr serialized \<Rightarrow>
          let w1 = fetch
                \<lparr>req_url = ''https://attributioniq-saas.onrender.com/api/v1/track'',
                 req_method = ''POST'',
                 req_headers =
                   [(''Content-Type'', ''application/json''),
                    (''Authorization'', ''Bearer '' @ to_string apiKey)],
                 req_body = serialized\<rparr> w
          in (case outcome of
                Fulfilled \<Rightarrow> Normal w1
              | Rejected error \<Rightarrow>
                  Normal (console_error ''AttributionIQ tracking error:'' (Some error) w1)))"

subsection \<open>The conversion function and the handler\<close>

text \<open>
  The body of the function assigned to \<^verbatim>\<open>window.attributionIQ.trackConversion\<close>, with
  the \<^verbatim>\<open>apiKey\<close> of its closure. A call without an argument passes \<open>JUndefined\<close>.
  The object literal evaluates \<^verbatim>\<open>getCustomerId()\<close>, then
  \<^verbatim>\<open>getReferralChannel()\<close>, then \<^verbatim>\<open>value || 0\<close>.
\<close>

definition trackConversion_body ::
    "string option \<Rightarrow> jsval \<Rightarrow> string \<Rightarrow> int \<Rightarrow> fetch_outcome \<Rightarrow> world \<Rightarrow> completion" where
  "trackConversion_body apiKey val random36 now outcome w =
     (let (cid, w1) = getCustomerId random36 now w;
          channel = getReferralChannel (document_referrer w1)
      in trackEvent apiKey
           [(''customer_id'', JStr cid),
            (''channel'', JStr channel),
            (''value'', JNum (Finite 1)),
            (''is_conversion'', JBool True),
            (''conversion_value'', js_or val (JNum (Finite 0)))]
           outcome w1)"

fun call :: "closure \<Rightarrow> jsval \<Rightarrow> string \<Rightarrow> int \<Rightarrow> fetch_outcome \<Rightarrow> world \<Rightarrow> completion" where
  "call (Closure_trackConversion apiKey) val random36 now outcome w =
     trackConversion_body apiKey val random36 now outcome w"

text \<open>\<^verbatim>\<open>!x\<close> for a configuration field: missing, or the empty string.\<close>

definition falsy :: "string option \<Rightarrow> bool" where
  "falsy x = (x = None \<or> x = Some [])"

text \<open>
  The \<^verbatim>\<open>DOMContentLoaded\<close> handler. \<^verbatim>\<open>window.attributionIQ || {}\<close> is the object
  in the slot, or a fresh empty object when the slot is \<^verbatim>\<open>undefined\<close>.
\<close>

definition or_empty :: "attributionIQ option \<Rightarrow> attributionIQ" where
  "or_empty slot = (case slot of Some obj \<Rightarrow> obj | None \<Rightarrow> empty_object)"

definition DOMContentLoaded :: "string \<Rightarrow> int \<Rightarrow> fetch_outcome \<Rightarrow> world \<Rightarrow> completion" where
  "DOMContentLoaded random36 now outcome w =
     (let config = or_empty (window_attributionIQ w);
          tenantId = tenant_id config;
          apiKey = api_key config
      in if falsy tenantId \<or> falsy apiKey
         then Normal (console_error
                ''AttributionIQ: Missing tenant_id or api_key in configuration'' None w)
         else
           let (cid, w1) = getCustomerId random36 now w;
               channel = getReferralChannel (document_referrer w1)
           in (case trackEvent apiKey
                      [(''customer_id'', JStr cid),
                       (''channel'', JStr channel),
                       (''value'', JNum (Finite 1))]
                      outcome w1 of
                 Throw e w2 \<Rightarrow> Throw e w2
               | Normal w2 \<Rightarrow>
                   Normal (w2\<lparr>window_attributionIQ :=
                     Some ((or_empty (window_attributionIQ w2))
                       \<lparr>trackConversion := Some (Closure_trackConversion apiKey)\<rparr>)\<rparr>)))"

subsection \<open>Vocabulary of the statements\<close>

text \<open>
  A configuration is valid when \<^verbatim>\<open>tenant_id\<close> and \<^verbatim>\<open>api_key\<close> are both present and
  not empty.
\<close>

definition valid_config :: "world \<Rightarrow> bool" where
  "valid_config w =
     (case window_attributionIQ w of
        None \<Rightarrow> False
      | Some obj \<Rightarrow>
          (case (tenant_id obj, api_key obj) of
             (Some t, Some k) \<Rightarrow> t \<noteq> [] \<and> k \<noteq> []
           | _ \<Rightarrow> False))"

text \<open>
  The requests a call has added to those issued before it, and the lines it has added
  to the console.
\<close>

definition issued :: "world \<Rightarrow> completion \<Rightarrow> request list" where
  "issued w result = drop (length (network w)) (network (world_of result))"

definition logged :: "world \<Rightarrow> completion \<Rightarrow> console_entry list" where
  "logged w result = drop (length (console w)) (console (world_of result))"

text \<open>
  A value that \<^verbatim>\<open>JSON.stringify\<close> accepts as the value of a property: it writes it
  or leaves it out, but does not throw.
\<close>

definition serializable :: "jsval \<Rightarrow> bool" where
  "serializable v =
     (case serialize_property v of
        Throws e \<Rightarrow> False
      | Omitted \<Rightarrow> True
      | Serial j \<Rightarrow> True)"

text \<open>
  The request that \<^verbatim>\<open>trackEvent\<close> hands to \<^verbatim>\<open>fetch\<close> for a key and a serialised
  event, and what the \<^verbatim>\<open>catch\<close> callback writes to the console for an outcome.
\<close>

definition track_request :: "string option \<Rightarrow> json \<Rightarrow> request" where
  "track_request apiKey serialized =
     \<lparr>req_url = ''https://attributioniq-saas.onrender.com/api/v1/track'',
      req_method = ''POST'',
      req_headers =
        [(''Content-Type'', ''application/json''),
         (''Authorization'', ''Bearer '' @ to_string apiKey)],
      req_body = serialized\<rparr>"

definition rejection_log :: "fetch_outcome \<Rightarrow> console_entry list" where
  "rejection_log outcome =
     (case outcome of
        Fulfilled \<Rightarrow> []
      | Rejected error \<Rightarrow> [ConsoleError ''AttributionIQ tracking error:'' (Some error)])"

text \<open>The event object of a conversion, with the value it carries as \<^verbatim>\<open>conversion_value\<close>.\<close>

definition conversion_event :: "string \<Rightarrow> string \<Rightarrow> jsval \<Rightarrow> js_object" where
  "conversion_event cid channel val =
     [(''customer_id'', JStr cid),
      (''channel'', JStr channel),
      (''value'', JNum (Finite 1)),
      (''is_conversion'', JBool True),
      (''conversion_value'', val)]"

text \<open>A page that has set its configuration and nothing else, used in the examples.\<close>

definition example_page :: world where
  "example_page =
     \<lparr>window_attributionIQ =
        Some \<lparr>tenant_id = Some ''acme'', api_key = Some ''s3cret'', trackConversion = None\<rparr>,
      document_referrer = Some ''https://www.google.com/'',
      localStorage = Map.empty,
      console = [],
      network = []\<rparr>"

text \<open>The same page with an empty \<^verbatim>\<open>api_key\<close>.\<close>

definition example_page_empty_key :: world where
  "example_page_empty_key =
     example_page\<lparr>window_attributionIQ :=
        Some \<lparr>tenant_id = Some ''acme'', api_key = Some '''', trackConversion = None\<rparr>\<rparr>"

text \<open>The same page reached from a search on Bing.\<close>

definition example_page_bing :: world where
  "example_page_bing =
     example_page\<lparr>document_referrer := Some ''https://www.bing.com/search?q=shoes''\<rparr>"

section \<open>Properties of channel derivation\<close>

lemma str_includes_iff: "str_includes ref key \<longleftrightarrow> (\<exists>before after. ref = before @ key @ after)"
  by (simp add: str_includes_def sublist_def)

lemma domains_keys: "map fst domains = known_tokens"
  by (simp add: domains_def known_tokens_def)

lemma domains_identity: "(key, val) \<in> set domains \<Longrightarrow> val = key"
  by (auto simp: domains_def)

lemma first_match_find:
  "\<forall>(key, val) \<in> set entries. val = key \<Longrightarrow>
   first_match ref entries = find (str_includes ref) (map fst entries)"
  by (induction entries) auto

lemma first_match_domains: "first_match ref domains = find (str_includes ref) known_tokens"
proof -
  have "\<forall>(key, val) \<in> set domains. val = key"
    using domains_identity by auto
  then have "first_match ref domains = find (str_includes ref) (map fst domains)"
    by (rule first_match_find)
  then show ?thesis by (simp add: domains_keys)
qed

lemma str_includes_nonempty: "str_includes ref key \<Longrightarrow> key \<noteq> [] \<Longrightarrow> ref \<noteq> []"
  by (auto simp: str_includes_iff)

lemma known_tokens_nonempty: "key \<in> set known_tokens \<Longrightarrow> key \<noteq> []"
  by (auto simp: known_tokens_def)

lemma no_token_other:
  "ref \<noteq> [] \<Longrightarrow> find (str_includes ref) known_tokens = None \<Longrightarrow>
   getReferralChannel (Some ref) = ''other''"
  by (simp add: getReferralChannel_def first_match_domains)

text \<open>
  C2. A referrer that contains at least one of the nine tokens is labelled with the
  first token, in the listed order, that occurs in it as a substring: the label is the
  result of \<open>find\<close> over the token list, and it is the token itself.
\<close>

theorem channel_first_token:
  assumes "\<exists>key \<in> set known_tokens. str_includes ref key"
  shows "find (str_includes ref) known_tokens = Some (getReferralChannel (Some ref))"
proof -
  from assms obtain key where key: "key \<in> set known_tokens" "str_includes ref key"
    by blast
  then have "ref \<noteq> []"
    using str_includes_nonempty known_tokens_nonempty by blast
  moreover from key obtain tok where "find (str_includes ref) known_tokens = Some tok"
    by (cases "find (str_includes ref) known_tokens") (auto simp: find_None_iff)
  ultimately show ?thesis
    by (simp add: getReferralChannel_def first_match_domains)
qed

theorem channel_first_token_witness:
  "(\<exists>key \<in> set known_tokens. str_includes ''https://facebook.com/?q=google'' key) \<and>
   find (str_includes ''https://facebook.com/?q=google'') known_tokens = Some ''google'' \<and>
   getReferralChannel (Some ''https://facebook.com/?q=google'') = ''google''"
proof -
  have inc: "str_includes ''https://facebook.com/?q=google'' ''google''"
    by (simp add: str_includes_def sublist_code(3))
  have ex: "\<exists>key \<in> set known_tokens. str_includes ''https://facebook.com/?q=google'' key"
    using inc by (auto simp: known_tokens_def)
  have fnd: "find (str_includes ''https://facebook.com/?q=google'') known_tokens = Some ''google''"
    using inc by (simp add: known_tokens_def)
  show ?thesis
    using ex fnd channel_first_token [OF ex] by simp
qed

text \<open>
  C7. An absent referrer and the empty referrer are both labelled \<open>direct\<close>.
\<close>

theorem channel_direct:
  "getReferralChannel None = ''direct'' \<and> getReferralChannel (Some '''') = ''direct''"
  by (simp add: getReferralChannel_def)

text \<open>
  C8. A non-empty referrer that contains none of the nine tokens as a substring is
  labelled \<open>other\<close>.
\<close>

theorem channel_other:
  assumes "ref \<noteq> []" and "\<forall>key \<in> set known_tokens. \<not> str_includes ref key"
  shows "getReferralChannel (Some ref) = ''other''"
proof -
  from assms(2) have "find (str_includes ref) known_tokens = None"
    by (simp add: find_None_iff)
  with assms(1) show ?thesis
    by (rule no_token_other)
qed

theorem channel_other_witness:
  "''https://example.com/'' \<noteq> [] \<and>
   \<not> (\<exists>key \<in> set known_tokens. str_includes ''https://example.com/'' key) \<and>
   getReferralChannel (Some ''https://example.com/'') = ''other''"
proof -
  have none: "\<forall>key \<in> set known_tokens. \<not> str_includes ''https://example.com/'' key"
    by (simp add: known_tokens_def str_includes_def sublist_code(3))
  have ne: "''https://example.com/'' \<noteq> []" by simp
  show ?thesis
    using none channel_other [OF ne none] by simp
qed

text \<open>
  C10. Matching is case-sensitive. A non-empty referrer in which a token occurs only in
  another letter case (some substring differs from the token and lower-cases to it),
  and in which no token occurs as written, is labelled \<open>other\<close>.
\<close>

theorem channel_case_sensitive:
  assumes "ref \<noteq> []"
    and "\<exists>key \<in> set known_tokens. \<exists>occ. str_includes ref occ \<and> occ \<noteq> key \<and> lower occ = key"
    and "\<forall>key \<in> set known_tokens. \<not> str_includes ref key"
  shows "getReferralChannel (Some ref) = ''other''"
proof -
  from assms(3) have "find (str_includes ref) known_tokens = None"
    by (simp add: find_None_iff)
  with assms(1) show ?thesis
    by (rule no_token_other)
qed

theorem channel_case_sensitive_witness:
  "str_includes ''https://www.Google.com/'' ''Google'' \<and> lower ''Google'' = ''google'' \<and>
   \<not> (\<exists>key \<in> set known_tokens. str_includes ''https://www.Google.com/'' key) \<and>
   getReferralChannel (Some ''https://www.Google.com/'') = ''other''"
proof -
  have ne: "''https://www.Google.com/'' \<noteq> []" by simp
  have occ: "str_includes ''https://www.Google.com/'' ''Google''"
    by (simp add: str_includes_def sublist_code(3))
  have low: "lower ''Google'' = ''google''"
    by (simp add: lower_def lower_char_def)
  have upper: "\<exists>key \<in> set known_tokens. \<exists>occ.
      str_includes ''https://www.Google.com/'' occ \<and> occ \<noteq> key \<and> lower occ = key"
  proof (intro bexI exI conjI)
    show "str_includes ''https://www.Google.com/'' ''Google''" by (rule occ)
    show "''Google'' \<noteq> ''google''" by simp
    show "lower ''Google'' = ''google''" by (rule low)
    show "''google'' \<in> set known_tokens" by (simp add: known_tokens_def)
  qed
  have none: "\<forall>key \<in> set known_tokens. \<not> str_includes ''https://www.Google.com/'' key"
    by (simp add: known_tokens_def str_includes_def sublist_code(3))
  show ?thesis
    using occ low none channel_case_sensitive [OF ne upper none] by simp
qed

section \<open>Properties of the visitor identifier\<close>

lemma digits36_nonempty: "digits36 n \<noteq> []"
  by (subst digits36.simps) simp

lemma toString36_nonempty: "toString36 i \<noteq> []"
  by (simp add: toString36_def digits36_nonempty)

lemma toString36_example: "toString36 1700000000000 = ''loyw3v28''"
  by (simp add: toString36_def digits36.simps digit36_def)

lemma getCustomerId_cases:
  "getCustomerId random36 now w =
     (if localStorage w ''attributioniq_cid'' = None \<or> localStorage w ''attributioniq_cid'' = Some []
      then (substr 2 10 random36 @ toString36 now,
            w\<lparr>localStorage :=
                (localStorage w)(''attributioniq_cid'' \<mapsto> substr 2 10 random36 @ toString36 now)\<rparr>)
      else (the (localStorage w ''attributioniq_cid''), w))"
  by (auto simp: getCustomerId_def Let_def split: option.splits)

lemma getCustomerId_frame:
  "network (snd (getCustomerId random36 now w)) = network w"
  "console (snd (getCustomerId random36 now w)) = console w"
  "document_referrer (snd (getCustomerId random36 now w)) = document_referrer w"
  "window_attributionIQ (snd (getCustomerId random36 now w)) = window_attributionIQ w"
  by (simp_all add: getCustomerId_cases)

text \<open>
  C5. Whatever the first call of the getter returns, a second call in the storage it
  left behind returns the same string and changes nothing, whatever the random number
  and the clock are by then. When nothing is stored under \<^verbatim>\<open>attributioniq_cid\<close>, the
  first call makes a new identifier from the random string and the clock, the
  identifier is not empty, and it is stored under that key in the world the call
  returns.
\<close>

theorem customer_id_stable:
  assumes "getCustomerId random1 now1 w = (cid, w1)"
  shows "getCustomerId random2 now2 w1 = (cid, w1) \<and>
         (localStorage w ''attributioniq_cid'' = None \<longrightarrow>
            cid = substr 2 10 random1 @ toString36 now1 \<and> cid \<noteq> [] \<and>
            localStorage w1 ''attributioniq_cid'' = Some cid)"
proof -
  have stored: "localStorage w1 ''attributioniq_cid'' = Some cid" and ne: "cid \<noteq> []"
    using assms by (auto simp: getCustomerId_cases toString36_nonempty split: if_splits)
  have again: "getCustomerId random2 now2 w1 = (cid, w1)"
    using stored ne by (simp add: getCustomerId_cases)
  have fresh: "localStorage w ''attributioniq_cid'' = None \<Longrightarrow>
      cid = substr 2 10 random1 @ toString36 now1"
    using assms by (simp add: getCustomerId_cases)
  show ?thesis using stored ne again fresh by blast
qed

theorem customer_id_stable_witness:
  "getCustomerId ''0.4fzyo82mvyr'' 1700000000000 example_page =
     (''4fzyo82mvyloyw3v28'',
      example_page\<lparr>localStorage := [''attributioniq_cid'' \<mapsto> ''4fzyo82mvyloyw3v28'']\<rparr>) \<and>
   getCustomerId ''0.9zzzzzzzzzzz'' 1700000099999
      (example_page\<lparr>localStorage := [''attributioniq_cid'' \<mapsto> ''4fzyo82mvyloyw3v28'']\<rparr>) =
     (''4fzyo82mvyloyw3v28'',
      example_page\<lparr>localStorage := [''attributioniq_cid'' \<mapsto> ''4fzyo82mvyloyw3v28'']\<rparr>) \<and>
   localStorage example_page ''attributioniq_cid'' = None"
proof -
  have first: "getCustomerId ''0.4fzyo82mvyr'' 1700000000000 example_page =
     (''4fzyo82mvyloyw3v28'',
      example_page\<lparr>localStorage := [''attributioniq_cid'' \<mapsto> ''4fzyo82mvyloyw3v28'']\<rparr>)"
    by (simp add: getCustomerId_cases toString36_example substr_def example_page_def)
  have empty: "localStorage example_page ''attributioniq_cid'' = None"
    by (simp add: example_page_def)
  note again =
    customer_id_stable [OF first, of "''0.9zzzzzzzzzzz''" 1700000099999, THEN conjunct1]
  show ?thesis
    by (intro conjI first again empty)
qed

section \<open>Properties of initialisation\<close>

lemma valid_config_iff:
  "valid_config w \<longleftrightarrow>
     \<not> (falsy (tenant_id (or_empty (window_attributionIQ w))) \<or>
        falsy (api_key (or_empty (window_attributionIQ w))))"
  by (auto simp: valid_config_def falsy_def or_empty_def empty_object_def split: option.splits)

text \<open>
  C3. When the configuration is not valid (the slot is undefined, or \<^verbatim>\<open>tenant_id\<close> or
  \<^verbatim>\<open>api_key\<close> is missing or empty), the handler returns after one
  \<^verbatim>\<open>console.error\<close> and changes nothing else: it issues no request, and the global
  slot is what it was, so no conversion function has been installed.
\<close>

theorem init_without_credentials:
  assumes "\<not> valid_config w"
  shows "DOMContentLoaded random36 now outcome w =
           Normal (w\<lparr>console := console w @
             [ConsoleError ''AttributionIQ: Missing tenant_id or api_key in configuration'' None]\<rparr>) \<and>
         issued w (DOMContentLoaded random36 now outcome w) = [] \<and>
         window_attributionIQ (world_of (DOMContentLoaded random36 now outcome w)) =
           window_attributionIQ w"
proof -
  from assms have "falsy (tenant_id (or_empty (window_attributionIQ w))) \<or>
        falsy (api_key (or_empty (window_attributionIQ w)))"
    by (simp add: valid_config_iff)
  then have "DOMContentLoaded random36 now outcome w =
           Normal (w\<lparr>console := console w @
             [ConsoleError ''AttributionIQ: Missing tenant_id or api_key in configuration'' None]\<rparr>)"
    by (simp add: DOMContentLoaded_def Let_def console_error_def)
  then show ?thesis
    by (simp add: issued_def)
qed

theorem init_without_credentials_witness:
  "\<not> valid_config example_page_empty_key \<and>
   DOMContentLoaded ''0.4fzyo82mvyr'' 1700000000000 Fulfilled example_page_empty_key =
     Normal (example_page_empty_key\<lparr>console :=
       [ConsoleError ''AttributionIQ: Missing tenant_id or api_key in configuration'' None]\<rparr>) \<and>
   issued example_page_empty_key
     (DOMContentLoaded ''0.4fzyo82mvyr'' 1700000000000 Fulfilled example_page_empty_key) = [] \<and>
   trackConversion (or_empty (window_attributionIQ (world_of
     (DOMContentLoaded ''0.4fzyo82mvyr'' 1700000000000 Fulfilled example_page_empty_key)))) = None"
proof -
  have invalid: "\<not> valid_config example_page_empty_key"
    by (simp add: valid_config_def example_page_empty_key_def example_page_def)
  have quiet: "console example_page_empty_key = []"
    by (simp add: example_page_empty_key_def example_page_def)
  have slot: "trackConversion (or_empty (window_attributionIQ example_page_empty_key)) = None"
    by (simp add: example_page_empty_key_def example_page_def or_empty_def)
  note run =
    init_without_credentials [OF invalid, of "''0.4fzyo82mvyr''" 1700000000000 Fulfilled]
  have result: "DOMContentLoaded ''0.4fzyo82mvyr'' 1700000000000 Fulfilled example_page_empty_key =
     Normal (example_page_empty_key\<lparr>console :=
       [ConsoleError ''AttributionIQ: Missing tenant_id or api_key in configuration'' None]\<rparr>)"
    using run [THEN conjunct1] quiet by simp
  have nothing_sent: "issued example_page_empty_key
     (DOMContentLoaded ''0.4fzyo82mvyr'' 1700000000000 Fulfilled example_page_empty_key) = []"
    by (rule run [THEN conjunct2, THEN conjunct1])
  have not_installed: "trackConversion (or_empty (window_attributionIQ (world_of
     (DOMContentLoaded ''0.4fzyo82mvyr'' 1700000000000 Fulfilled example_page_empty_key)))) = None"
    using run [THEN conjunct2, THEN conjunct2] slot by simp
  show ?thesis
    by (intro conjI invalid result nothing_sent not_installed)
qed

section \<open>Properties of transmission\<close>

lemma trackEvent_sends:
  assumes "JSON_stringify data = Inr body"
  shows "trackEvent apiKey data outcome w =
           Normal (w\<lparr>network := network w @ [track_request apiKey body],
                     console := console w @ rejection_log outcome\<rparr>)"
  using assms
  by (cases outcome)
     (simp_all add: trackEvent_def fetch_def console_error_def track_request_def rejection_log_def)

lemma trackEvent_throws:
  assumes "JSON_stringify data = Inl e"
  shows "trackEvent apiKey data outcome w = Throw e w"
  using assms by (simp add: trackEvent_def)

lemma stringify_page_view:
  "JSON_stringify [(''customer_id'', JStr cid), (''channel'', JStr channel), (''value'', JNum (Finite 1))] =
     Inr (JsonObj [(''customer_id'', JsonStr cid), (''channel'', JsonStr channel), (''value'', JsonNum 1)])"
  by (simp add: JSON_stringify_def)

lemma stringify_conversion:
  "JSON_stringify (conversion_event cid channel val) =
     (case serialize_property val of
        Throws e \<Rightarrow> Inl e
      | Omitted \<Rightarrow>
          Inr (JsonObj [(''customer_id'', JsonStr cid), (''channel'', JsonStr channel),
                 (''value'', JsonNum 1), (''is_conversion'', JsonBool True)])
      | Serial j \<Rightarrow>
          Inr (JsonObj [(''customer_id'', JsonStr cid), (''channel'', JsonStr channel),
                 (''value'', JsonNum 1), (''is_conversion'', JsonBool True),
                 (''conversion_value'', j)]))"
  by (simp add: JSON_stringify_def conversion_event_def split: serial.splits)

lemma call_unfold:
  "call c val random36 now outcome w =
     (case c of Closure_trackConversion apiKey \<Rightarrow>
        trackEvent apiKey
          (conversion_event (fst (getCustomerId random36 now w))
             (getReferralChannel (document_referrer w)) (js_or val (JNum (Finite 0))))
          outcome (snd (getCustomerId random36 now w)))"
  by (cases c)
     (simp add: trackConversion_body_def conversion_event_def split_beta getCustomerId_frame)

lemma getCustomerId_example:
  "getCustomerId ''0.4fzyo82mvyr'' 1700000000000 example_page =
     (''4fzyo82mvyloyw3v28'',
      example_page\<lparr>localStorage := [''attributioniq_cid'' \<mapsto> ''4fzyo82mvyloyw3v28'']\<rparr>)"
  by (simp add: getCustomerId_cases toString36_example substr_def example_page_def)

lemma channel_example: "getReferralChannel (document_referrer example_page) = ''google''"
  by (simp add: example_page_def getReferralChannel_def domains_def str_includes_def
        sublist_code(3))

lemma getCustomerId_console:
  "getCustomerId random36 now (w\<lparr>console := cs\<rparr>) =
     (fst (getCustomerId random36 now w), (snd (getCustomerId random36 now w))\<lparr>console := cs\<rparr>)"
  by (simp add: getCustomerId_cases)

lemma call_console:
  "call c val random36 now outcome (w\<lparr>console := cs\<rparr>) =
     (case call c val random36 now outcome w of
        Normal w' \<Rightarrow> Normal (w'\<lparr>console := cs @ logged w (Normal w')\<rparr>)
      | Throw e w' \<Rightarrow> Throw e (w'\<lparr>console := cs @ logged w (Throw e w')\<rparr>))"
proof -
  obtain apiKey where c: "c = Closure_trackConversion apiKey" by (cases c)
  let ?event = "conversion_event (fst (getCustomerId random36 now w))
             (getReferralChannel (document_referrer w)) (js_or val (JNum (Finite 0)))"
  show ?thesis
  proof (cases "JSON_stringify ?event")
    case (Inl e)
    then show ?thesis
      by (simp add: call_unfold c getCustomerId_console trackEvent_throws logged_def
            getCustomerId_frame)
  next
    case (Inr body)
    then show ?thesis
      by (simp add: call_unfold c getCustomerId_console trackEvent_sends logged_def
            getCustomerId_frame)
  qed
qed

lemma later_call_unaffected:
  assumes "failed = ok\<lparr>console := cs\<rparr>"
  shows "returns (call c val random36 now outcome failed) =
           returns (call c val random36 now outcome ok) \<and>
         issued failed (call c val random36 now outcome failed) =
           issued ok (call c val random36 now outcome ok) \<and>
         logged failed (call c val random36 now outcome failed) =
           logged ok (call c val random36 now outcome ok) \<and>
         localStorage (world_of (call c val random36 now outcome failed)) =
           localStorage (world_of (call c val random36 now outcome ok))"
  unfolding assms call_console
  by (cases "call c val random36 now outcome ok") (simp_all add: issued_def logged_def)

text \<open>
  C6. Take an event that serialises, so that \<^verbatim>\<open>trackEvent\<close> issues its request, and
  let the promise reject with \<open>error\<close>. Then \<^verbatim>\<open>trackEvent\<close> returns to its caller
  as it does when the promise is fulfilled; the world it leaves is the one of the
  fulfilled case with one more console line, the logged error; the request has been
  issued once and is not repeated. Every later call of the conversion function
  returns or throws, issues the same requests, logs the same lines and leaves the same
  storage as it would after a fulfilled promise.
\<close>

theorem transport_failure_contained:
  assumes "JSON_stringify data = Inr body"
  shows "\<exists>ok failed.
           trackEvent apiKey data Fulfilled w = Normal ok \<and>
           trackEvent apiKey data (Rejected error) w = Normal failed \<and>
           failed = ok\<lparr>console := console ok @
                      [ConsoleError ''AttributionIQ tracking error:'' (Some error)]\<rparr> \<and>
           issued w (Normal failed) = [track_request apiKey body] \<and>
           (\<forall>c val random36 now outcome.
              returns (call c val random36 now outcome failed) =
                returns (call c val random36 now outcome ok) \<and>
              issued failed (call c val random36 now outcome failed) =
                issued ok (call c val random36 now outcome ok) \<and>
              logged failed (call c val random36 now outcome failed) =
                logged ok (call c val random36 now outcome ok) \<and>
              localStorage (world_of (call c val random36 now outcome failed)) =
                localStorage (world_of (call c val random36 now outcome ok)))"
proof -
  let ?ok = "w\<lparr>network := network w @ [track_request apiKey body]\<rparr>"
  let ?failed = "?ok\<lparr>console := console ?ok @
                      [ConsoleError ''AttributionIQ tracking error:'' (Some error)]\<rparr>"
  have ok: "trackEvent apiKey data Fulfilled w = Normal ?ok"
    by (simp add: trackEvent_sends [OF assms] rejection_log_def)
  have failed: "trackEvent apiKey data (Rejected error) w = Normal ?failed"
    by (simp add: trackEvent_sends [OF assms] rejection_log_def)
  have once: "issued w (Normal ?failed) = [track_request apiKey body]"
    by (simp add: issued_def)
  have later: "\<forall>c val random36 now outcome.
              returns (call c val random36 now outcome ?failed) =
                returns (call c val random36 now outcome ?ok) \<and>
              issued ?failed (call c val random36 now outcome ?failed) =
                issued ?ok (call c val random36 now outcome ?ok) \<and>
              logged ?failed (call c val random36 now outcome ?failed) =
                logged ?ok (call c val random36 now outcome ?ok) \<and>
              localStorage (world_of (call c val random36 now outcome ?failed)) =
                localStorage (world_of (call c val random36 now outcome ?ok))"
    using later_call_unaffected [OF refl] by blast
  show ?thesis
    using ok failed once later by (intro exI [of _ ?ok] exI [of _ ?failed]) blast
qed

theorem transport_failure_contained_witness:
  "JSON_stringify
     [(''customer_id'', JStr ''4fzyo82mvyloyw3v28''), (''channel'', JStr ''google''),
      (''value'', JNum (Finite 1))] =
     Inr (JsonObj [(''customer_id'', JsonStr ''4fzyo82mvyloyw3v28''),
                   (''channel'', JsonStr ''google''), (''value'', JsonNum 1)]) \<and>
   returns (trackEvent (Some ''s3cret'')
     [(''customer_id'', JStr ''4fzyo82mvyloyw3v28''), (''channel'', JStr ''google''),
      (''value'', JNum (Finite 1))]
     (Rejected (TypeError ''Failed to fetch'')) example_page) \<and>
   console (world_of (trackEvent (Some ''s3cret'')
     [(''customer_id'', JStr ''4fzyo82mvyloyw3v28''), (''channel'', JStr ''google''),
      (''value'', JNum (Finite 1))]
     (Rejected (TypeError ''Failed to fetch'')) example_page)) =
     [ConsoleError ''AttributionIQ tracking error:'' (Some (TypeError ''Failed to fetch''))]"
proof -
  have body: "JSON_stringify
     [(''customer_id'', JStr ''4fzyo82mvyloyw3v28''), (''channel'', JStr ''google''),
      (''value'', JNum (Finite 1))] =
     Inr (JsonObj [(''customer_id'', JsonStr ''4fzyo82mvyloyw3v28''),
                   (''channel'', JsonStr ''google''), (''value'', JsonNum 1)])"
    by (rule stringify_page_view)
  from transport_failure_contained [OF body, of "Some ''s3cret''" example_page
      "TypeError ''Failed to fetch''"]
  obtain ok failed where
    ok: "trackEvent (Some ''s3cret'')
     [(''customer_id'', JStr ''4fzyo82mvyloyw3v28''), (''channel'', JStr ''google''),
      (''value'', JNum (Finite 1))] Fulfilled example_page = Normal ok"
    and failed: "trackEvent (Some ''s3cret'')
     [(''customer_id'', JStr ''4fzyo82mvyloyw3v28''), (''channel'', JStr ''google''),
      (''value'', JNum (Finite 1))]
     (Rejected (TypeError ''Failed to fetch'')) example_page = Normal failed"
    and log: "failed = ok\<lparr>console := console ok @
        [ConsoleError ''AttributionIQ tracking error:'' (Some (TypeError ''Failed to fetch''))]\<rparr>"
    by blast
  have "console ok = []"
    using ok by (auto simp: trackEvent_sends [OF body] rejection_log_def example_page_def)
  with log have "console failed =
      [ConsoleError ''AttributionIQ tracking error:'' (Some (TypeError ''Failed to fetch''))]"
    by simp
  with failed body show ?thesis by simp
qed

section \<open>Properties of the page view and of conversions\<close>

text \<open>
  C4. With a valid configuration the handler returns and has issued exactly one
  request. Its body is the object of the three fields \<^verbatim>\<open>customer_id\<close>,
  \<^verbatim>\<open>channel\<close> and \<^verbatim>\<open>value\<close>: \<^verbatim>\<open>value\<close> is 1 and there is no
  \<^verbatim>\<open>is_conversion\<close> field.
\<close>

theorem init_page_view:
  assumes "valid_config w"
  shows "\<exists>r. returns (DOMContentLoaded random36 now outcome w) \<and>
             issued w (DOMContentLoaded random36 now outcome w) = [r] \<and>
             req_body r =
               JsonObj [(''customer_id'', JsonStr (fst (getCustomerId random36 now w))),
                        (''channel'', JsonStr (getReferralChannel (document_referrer w))),
                        (''value'', JsonNum 1)] \<and>
             json_field (req_body r) ''value'' = Some (JsonNum 1) \<and>
             json_field (req_body r) ''is_conversion'' = None"
proof -
  let ?body = "JsonObj [(''customer_id'', JsonStr (fst (getCustomerId random36 now w))),
                        (''channel'', JsonStr (getReferralChannel (document_referrer w))),
                        (''value'', JsonNum 1)]"
  let ?r = "track_request (api_key (or_empty (window_attributionIQ w))) ?body"
  from assms have ok: "\<not> (falsy (tenant_id (or_empty (window_attributionIQ w))) \<or>
        falsy (api_key (or_empty (window_attributionIQ w))))"
    by (simp add: valid_config_iff)
  have run: "returns (DOMContentLoaded random36 now outcome w) \<and>
        network (world_of (DOMContentLoaded random36 now outcome w)) = network w @ [?r]"
    using ok
    by (simp add: DOMContentLoaded_def Let_def split_beta
          trackEvent_sends [OF stringify_page_view] getCustomerId_frame)
  then have "issued w (DOMContentLoaded random36 now outcome w) = [?r]"
    by (simp add: issued_def)
  moreover have "req_body ?r = ?body"
    by (simp add: track_request_def)
  ultimately show ?thesis
    using run by (intro exI [of _ ?r]) simp
qed

theorem init_page_view_witness:
  "valid_config example_page \<and>
   returns (DOMContentLoaded ''0.4fzyo82mvyr'' 1700000000000 Fulfilled example_page) \<and>
   map req_body
     (issued example_page
        (DOMContentLoaded ''0.4fzyo82mvyr'' 1700000000000 Fulfilled example_page)) =
     [JsonObj [(''customer_id'', JsonStr ''4fzyo82mvyloyw3v28''),
               (''channel'', JsonStr ''google''),
               (''value'', JsonNum 1)]]"
proof -
  have valid: "valid_config example_page"
    by (simp add: valid_config_def example_page_def)
  from init_page_view [OF valid, of "''0.4fzyo82mvyr''" 1700000000000 Fulfilled]
  obtain r where r: "returns (DOMContentLoaded ''0.4fzyo82mvyr'' 1700000000000 Fulfilled example_page)"
      "issued example_page
         (DOMContentLoaded ''0.4fzyo82mvyr'' 1700000000000 Fulfilled example_page) = [r]"
      "req_body r =
         JsonObj [(''customer_id'',
                    JsonStr (fst (getCustomerId ''0.4fzyo82mvyr'' 1700000000000 example_page))),
                  (''channel'', JsonStr (getReferralChannel (document_referrer example_page))),
                  (''value'', JsonNum 1)]"
    by blast
  from r(3) have "req_body r =
      JsonObj [(''customer_id'', JsonStr ''4fzyo82mvyloyw3v28''),
               (''channel'', JsonStr ''google''),
               (''value'', JsonNum 1)]"
    by (simp add: getCustomerId_example channel_example)
  with valid r(1,2) show ?thesis by simp
qed

text \<open>
  C1, as amended. \<^verbatim>\<open>value || 0\<close> replaces a falsy argument by 0 and keeps every
  other argument, numeric or not. When \<^verbatim>\<open>JSON.stringify\<close> does not throw on the
  value that is kept, a call of the installed function returns and issues exactly one
  request; its body has \<^verbatim>\<open>is_conversion: true\<close>, and its \<^verbatim>\<open>conversion_value\<close> is
  what serialisation makes of the argument when the argument is truthy and of 0
  otherwise. So it is the argument itself when the argument is a finite number, and
  0 when the argument is absent or any other falsy value.
\<close>

theorem conversion_request:
  assumes "serializable (js_or val (JNum (Finite 0)))"
  shows "\<exists>r. returns (call c val random36 now outcome w) \<and>
             issued w (call c val random36 now outcome w) = [r] \<and>
             json_field (req_body r) ''is_conversion'' = Some (JsonBool True) \<and>
             json_field (req_body r) ''conversion_value'' =
               (case serialize_property (if truthy val then val else JNum (Finite 0)) of
                  Serial j \<Rightarrow> Some j
                | Omitted \<Rightarrow> None
                | Throws e \<Rightarrow> None) \<and>
             (\<forall>x. val = JNum (Finite x) \<longrightarrow>
                json_field (req_body r) ''conversion_value'' = Some (JsonNum x)) \<and>
             (\<not> truthy val \<longrightarrow>
                json_field (req_body r) ''conversion_value'' = Some (JsonNum 0))"
proof -
  obtain apiKey where c: "c = Closure_trackConversion apiKey" by (cases c)
  let ?sent = "if truthy val then val else JNum (Finite 0)"
  let ?event = "conversion_event (fst (getCustomerId random36 now w))
             (getReferralChannel (document_referrer w)) ?sent"
  from assms obtain body where body: "JSON_stringify ?event = Inr body"
    and fields: "json_field body ''is_conversion'' = Some (JsonBool True)"
      "json_field body ''conversion_value'' =
         (case serialize_property ?sent of Serial j \<Rightarrow> Some j | Omitted \<Rightarrow> None | Throws e \<Rightarrow> None)"
    by (auto simp: stringify_conversion serializable_def js_or_def split: serial.splits)
  let ?r = "track_request apiKey body"
  have run: "call c val random36 now outcome w =
      Normal ((snd (getCustomerId random36 now w))
        \<lparr>network := network w @ [?r],
          console := console w @ rejection_log outcome\<rparr>)"
    using trackEvent_sends [OF body]
    by (simp add: call_unfold c js_or_def getCustomerId_frame)
  have sent: "returns (call c val random36 now outcome w)"
    "issued w (call c val random36 now outcome w) = [?r]"
    by (simp_all add: run issued_def)
  have rb: "req_body ?r = body" by (simp add: track_request_def)
  have numeric: "\<forall>x. val = JNum (Finite x) \<longrightarrow> json_field body ''conversion_value'' = Some (JsonNum x)"
    using fields(2) by auto
  have absent: "\<not> truthy val \<longrightarrow> json_field body ''conversion_value'' = Some (JsonNum 0)"
    using fields(2) by simp
  show ?thesis
    using sent fields numeric absent
    by (intro exI [of _ ?r]) (simp only: rb)
qed

theorem conversion_request_witness:
  "serializable (js_or (JNum (Finite 42)) (JNum (Finite 0))) \<and>
   (\<exists>r. issued example_page
           (call (Closure_trackConversion (Some ''s3cret'')) (JNum (Finite 42))
              ''0.4fzyo82mvyr'' 1700000000000 Fulfilled example_page) = [r] \<and>
        json_field (req_body r) ''is_conversion'' = Some (JsonBool True) \<and>
        json_field (req_body r) ''conversion_value'' = Some (JsonNum 42)) \<and>
   serializable (js_or JUndefined (JNum (Finite 0))) \<and>
   (\<exists>r. issued example_page
           (call (Closure_trackConversion (Some ''s3cret'')) JUndefined
              ''0.4fzyo82mvyr'' 1700000000000 Fulfilled example_page) = [r] \<and>
        json_field (req_body r) ''is_conversion'' = Some (JsonBool True) \<and>
        json_field (req_body r) ''conversion_value'' = Some (JsonNum 0))"
proof -
  have number: "serializable (js_or (JNum (Finite 42)) (JNum (Finite 0)))"
    by (simp add: serializable_def js_or_def)
  have absent: "serializable (js_or JUndefined (JNum (Finite 0)))"
    by (simp add: serializable_def js_or_def)
  note with_number =
    conversion_request [OF number, of "Closure_trackConversion (Some ''s3cret'')"
      "''0.4fzyo82mvyr''" 1700000000000 Fulfilled example_page]
  note without_argument =
    conversion_request [OF absent, of "Closure_trackConversion (Some ''s3cret'')"
      "''0.4fzyo82mvyr''" 1700000000000 Fulfilled example_page]
  have one: "\<exists>r. issued example_page
           (call (Closure_trackConversion (Some ''s3cret'')) (JNum (Finite 42))
              ''0.4fzyo82mvyr'' 1700000000000 Fulfilled example_page) = [r] \<and>
        json_field (req_body r) ''is_conversion'' = Some (JsonBool True) \<and>
        json_field (req_body r) ''conversion_value'' = Some (JsonNum 42)"
    using with_number by blast
  have two: "\<exists>r. issued example_page
           (call (Closure_trackConversion (Some ''s3cret'')) JUndefined
              ''0.4fzyo82mvyr'' 1700000000000 Fulfilled example_page) = [r] \<and>
        json_field (req_body r) ''is_conversion'' = Some (JsonBool True) \<and>
        json_field (req_body r) ''conversion_value'' = Some (JsonNum 0)"
    using without_argument by auto
  show ?thesis
    by (intro conjI number one absent two)
qed

lemma call_example:
  assumes "serialize_property (js_or val (JNum (Finite 0))) = Serial j"
  shows "issued example_page
      (call (Closure_trackConversion (Some ''s3cret'')) val
         ''0.4fzyo82mvyr'' 1700000000000 outcome example_page) =
    [track_request (Some ''s3cret'')
       (JsonObj [(''customer_id'', JsonStr ''4fzyo82mvyloyw3v28''),
                 (''channel'', JsonStr ''google''),
                 (''value'', JsonNum 1),
                 (''is_conversion'', JsonBool True),
                 (''conversion_value'', j)])]"
proof -
  have "JSON_stringify (conversion_event ''4fzyo82mvyloyw3v28'' ''google''
          (js_or val (JNum (Finite 0)))) =
        Inr (JsonObj [(''customer_id'', JsonStr ''4fzyo82mvyloyw3v28''),
                 (''channel'', JsonStr ''google''),
                 (''value'', JsonNum 1),
                 (''is_conversion'', JsonBool True),
                 (''conversion_value'', j)])"
    using assms by (simp add: stringify_conversion)
  then show ?thesis
    by (simp add: call_unfold getCustomerId_example channel_example trackEvent_sends issued_def)
qed

text \<open>
  The claim C1 as it is written fails on a non-numeric argument that is truthy: the
  call \<^verbatim>\<open>trackConversion('abc')\<close> sends \<^verbatim>\<open>conversion_value: 'abc'\<close>, not 0.
\<close>

theorem conversion_string_counterexample:
  "issued example_page
      (call (Closure_trackConversion (Some ''s3cret'')) (JStr ''abc'')
         ''0.4fzyo82mvyr'' 1700000000000 Fulfilled example_page) =
    [track_request (Some ''s3cret'')
       (JsonObj [(''customer_id'', JsonStr ''4fzyo82mvyloyw3v28''),
                 (''channel'', JsonStr ''google''),
                 (''value'', JsonNum 1),
                 (''is_conversion'', JsonBool True),
                 (''conversion_value'', JsonStr ''abc'')])] \<and>
   json_field (req_body (hd (issued example_page
      (call (Closure_trackConversion (Some ''s3cret'')) (JStr ''abc'')
         ''0.4fzyo82mvyr'' 1700000000000 Fulfilled example_page)))) ''conversion_value'' \<noteq>
     Some (JsonNum 0)"
proof -
  have "serialize_property (js_or (JStr ''abc'') (JNum (Finite 0))) = Serial (JsonStr ''abc'')"
    by (simp add: js_or_def)
  from call_example [OF this, of Fulfilled] show ?thesis
    by (simp add: track_request_def)
qed

lemma call_example_omitted:
  assumes "serialize_property (js_or val (JNum (Finite 0))) = Omitted"
  shows "issued example_page
      (call (Closure_trackConversion (Some ''s3cret'')) val
         ''0.4fzyo82mvyr'' 1700000000000 outcome example_page) =
    [track_request (Some ''s3cret'')
       (JsonObj [(''customer_id'', JsonStr ''4fzyo82mvyloyw3v28''),
                 (''channel'', JsonStr ''google''),
                 (''value'', JsonNum 1),
                 (''is_conversion'', JsonBool True)])]"
proof -
  have "JSON_stringify (conversion_event ''4fzyo82mvyloyw3v28'' ''google''
          (js_or val (JNum (Finite 0)))) =
        Inr (JsonObj [(''customer_id'', JsonStr ''4fzyo82mvyloyw3v28''),
                 (''channel'', JsonStr ''google''),
                 (''value'', JsonNum 1),
                 (''is_conversion'', JsonBool True)])"
    using assms by (simp add: stringify_conversion)
  then show ?thesis
    by (simp add: call_unfold getCustomerId_example channel_example trackEvent_sends issued_def)
qed

text \<open>
  C9, as amended. Every request that a call of the conversion function issues has
  \<^verbatim>\<open>value: 1\<close> and \<^verbatim>\<open>is_conversion: true\<close> in its body, and its \<^verbatim>\<open>channel\<close> is
  the label derived from the referrer of the world in which the call is made. The
  value sent as \<^verbatim>\<open>conversion_value\<close> is the argument when it is truthy and 0
  otherwise; the body has the field with the JSON value that serialisation writes for
  it, and has no such field when serialisation leaves the value out, as it does for a
  symbol and for a function. The body is the serialisation of the event of these five
  properties.
\<close>

theorem conversion_request_fields:
  assumes "r \<in> set (issued w (call c val random36 now outcome w))"
  shows "json_field (req_body r) ''value'' = Some (JsonNum 1) \<and>
         json_field (req_body r) ''is_conversion'' = Some (JsonBool True) \<and>
         json_field (req_body r) ''channel'' =
           Some (JsonStr (getReferralChannel (document_referrer w))) \<and>
         json_field (req_body r) ''conversion_value'' =
           (case serialize_property (if truthy val then val else JNum (Finite 0)) of
              Serial j \<Rightarrow> Some j
            | Omitted \<Rightarrow> None
            | Throws e \<Rightarrow> None) \<and>
         JSON_stringify
           (conversion_event (fst (getCustomerId random36 now w))
              (getReferralChannel (document_referrer w))
              (if truthy val then val else JNum (Finite 0))) =
           Inr (req_body r)"
proof -
  obtain apiKey where c: "c = Closure_trackConversion apiKey" by (cases c)
  let ?sent = "if truthy val then val else JNum (Finite 0)"
  let ?event = "conversion_event (fst (getCustomerId random36 now w))
             (getReferralChannel (document_referrer w)) ?sent"
  have sent: "js_or val (JNum (Finite 0)) = ?sent"
    by (simp add: js_or_def)
  show ?thesis
  proof (cases "JSON_stringify ?event")
    case (Inl e)
    then have "issued w (call c val random36 now outcome w) = []"
      by (simp add: call_unfold c sent trackEvent_throws issued_def getCustomerId_frame)
    with assms show ?thesis by simp
  next
    case (Inr body)
    then have "issued w (call c val random36 now outcome w) = [track_request apiKey body]"
      by (simp add: call_unfold c sent trackEvent_sends issued_def getCustomerId_frame)
    with assms have r: "req_body r = body"
      by (simp add: track_request_def)
    from Inr have fixed: "json_field body ''value'' = Some (JsonNum 1) \<and>
         json_field body ''is_conversion'' = Some (JsonBool True) \<and>
         json_field body ''channel'' = Some (JsonStr (getReferralChannel (document_referrer w)))"
      by (auto simp: stringify_conversion split: serial.splits)
    from Inr have carried: "json_field body ''conversion_value'' =
           (case serialize_property ?sent of
              Serial j \<Rightarrow> Some j
            | Omitted \<Rightarrow> None
            | Throws e \<Rightarrow> None)"
      by (auto simp: stringify_conversion split: serial.splits)
    from fixed carried Inr show ?thesis
      unfolding r by (intro conjI) blast+
  qed
qed

theorem conversion_request_fields_witness:
  "track_request (Some ''s3cret'')
       (JsonObj [(''customer_id'', JsonStr ''4fzyo82mvyloyw3v28''),
                 (''channel'', JsonStr ''bing''),
                 (''value'', JsonNum 1),
                 (''is_conversion'', JsonBool True),
                 (''conversion_value'', JsonNum 0)])
     \<in> set (issued example_page_bing
         (call (Closure_trackConversion (Some ''s3cret'')) JUndefined
            ''0.4fzyo82mvyr'' 1700000000000 Fulfilled example_page_bing)) \<and>
   getReferralChannel (document_referrer example_page_bing) = ''bing'' \<and>
   serialize_property (if truthy JUndefined then JUndefined else JNum (Finite 0)) =
     Serial (JsonNum 0)"
proof -
  let ?r = "track_request (Some ''s3cret'')
       (JsonObj [(''customer_id'', JsonStr ''4fzyo82mvyloyw3v28''),
                 (''channel'', JsonStr ''bing''),
                 (''value'', JsonNum 1),
                 (''is_conversion'', JsonBool True),
                 (''conversion_value'', JsonNum 0)])"
  have cid: "getCustomerId ''0.4fzyo82mvyr'' 1700000000000 example_page_bing =
     (''4fzyo82mvyloyw3v28'',
      example_page_bing\<lparr>localStorage := [''attributioniq_cid'' \<mapsto> ''4fzyo82mvyloyw3v28'']\<rparr>)"
    by (simp add: getCustomerId_cases toString36_example substr_def example_page_def
          example_page_bing_def)
  have channel: "getReferralChannel (document_referrer example_page_bing) = ''bing''"
    by (simp add: example_page_bing_def example_page_def getReferralChannel_def domains_def
          str_includes_def sublist_code(3))
  have "JSON_stringify (conversion_event ''4fzyo82mvyloyw3v28'' ''bing''
          (js_or JUndefined (JNum (Finite 0)))) =
        Inr (JsonObj [(''customer_id'', JsonStr ''4fzyo82mvyloyw3v28''),
                 (''channel'', JsonStr ''bing''),
                 (''value'', JsonNum 1),
                 (''is_conversion'', JsonBool True),
                 (''conversion_value'', JsonNum 0)])"
    by (simp add: stringify_conversion js_or_def)
  then have sent: "?r \<in> set (issued example_page_bing
         (call (Closure_trackConversion (Some ''s3cret'')) JUndefined
            ''0.4fzyo82mvyr'' 1700000000000 Fulfilled example_page_bing))"
    by (simp add: call_unfold cid channel trackEvent_sends issued_def)
  note fields = conversion_request_fields [OF sent]
  from fields have "json_field (req_body ?r) ''channel'' =
      Some (JsonStr (getReferralChannel (document_referrer example_page_bing)))"
    by blast
  then have recomputed: "getReferralChannel (document_referrer example_page_bing) = ''bing''"
    by (simp add: track_request_def)
  from fields have "json_field (req_body ?r) ''conversion_value'' =
      (case serialize_property (if truthy JUndefined then JUndefined else JNum (Finite 0)) of
         Serial j \<Rightarrow> Some j
       | Omitted \<Rightarrow> None
       | Throws e \<Rightarrow> None)"
    by blast
  then have default: "serialize_property (if truthy JUndefined then JUndefined else JNum (Finite 0)) =
      Serial (JsonNum 0)"
    by (simp add: track_request_def split: serial.splits)
  show ?thesis
    by (intro conjI sent recomputed default)
qed

text \<open>
  The claim C9 as it is written fails on an argument that serialisation leaves out:
  the call \<^verbatim>\<open>trackConversion(Symbol())\<close> issues a request whose body has the four
  fields \<^verbatim>\<open>customer_id\<close>, \<^verbatim>\<open>channel\<close>, \<^verbatim>\<open>value\<close> and \<^verbatim>\<open>is_conversion\<close>, and
  no \<^verbatim>\<open>conversion_value\<close>.
\<close>

theorem conversion_symbol_counterexample:
  "issued example_page
      (call (Closure_trackConversion (Some ''s3cret'')) JSymbol
         ''0.4fzyo82mvyr'' 1700000000000 Fulfilled example_page) =
    [track_request (Some ''s3cret'')
       (JsonObj [(''customer_id'', JsonStr ''4fzyo82mvyloyw3v28''),
                 (''channel'', JsonStr ''google''),
                 (''value'', JsonNum 1),
                 (''is_conversion'', JsonBool True)])] \<and>
   json_field (req_body (hd (issued example_page
      (call (Closure_trackConversion (Some ''s3cret'')) JSymbol
         ''0.4fzyo82mvyr'' 1700000000000 Fulfilled example_page)))) ''conversion_value'' = None"
proof -
  have "serialize_property (js_or JSymbol (JNum (Finite 0))) = Omitted"
    by (simp add: js_or_def)
  from call_example_omitted [OF this, of Fulfilled] show ?thesis
    by (simp add: track_request_def)
qed

end
